theory Spec2Isabelle
  imports Complex_Main "HOL-Library.Sublist"
begin

section \<open>Text\<close>

text \<open>
  A Python \<^verbatim>\<open>str\<close> is a sequence of Unicode code points.  Code points are natural
  numbers here, so that a character beyond ASCII is one element of the list, as it is
  one element of the Python string.  ASCII literals are written through \<open>str\<close>.
\<close>

type_synonym codepoint = nat
type_synonym pystr = "codepoint list"

definition str :: "string \<Rightarrow> pystr" where
  "str s = map of_char s"

definition SPACE :: codepoint where
  "SPACE = 32"

text \<open>\<^verbatim>\<open>s.replace(" ", "")\<close>: every U+0020 is dropped, nothing else.\<close>

definition replace_space :: "pystr \<Rightarrow> pystr" where
  "replace_space s = filter (\<lambda>c. c \<noteq> SPACE) s"

text \<open>\<^verbatim>\<open>sep.join(parts)\<close>.\<close>

fun join :: "pystr \<Rightarrow> pystr list \<Rightarrow> pystr" where
  "join sep [] = []"
| "join sep [x] = x"
| "join sep (x # y # ys) = x @ sep @ join sep (y # ys)"

text \<open>\<^verbatim>\<open>needle in haystack\<close> on strings: the needle occurs at some offset.\<close>

fun starts_with :: "pystr \<Rightarrow> pystr \<Rightarrow> bool" where
  "starts_with hs [] = True"
| "starts_with [] (n # ns) = False"
| "starts_with (h # hs) (n # ns) = (h = n \<and> starts_with hs ns)"

fun str_contains :: "pystr \<Rightarrow> pystr \<Rightarrow> bool" where
  "str_contains [] needle = (needle = [])"
| "str_contains (h # hs) needle = (starts_with (h # hs) needle \<or> str_contains hs needle)"

subsection \<open>Lower-casing\<close>

text \<open>
  \<^verbatim>\<open>str.lower()\<close> maps every code point through the full lower-case mapping of the
  Unicode character database, one code point to one, two or three, except capital sigma
  U+03A3, which becomes the final form U+03C2 when it ends a word and U+03C3 otherwise.
  The database itself is not part of the program: its three tables are a parameter.
\<close>

record unicode_db =
  ToLowerFull :: "codepoint \<Rightarrow> pystr"
  IsCased :: "codepoint \<Rightarrow> bool"
  IsCaseIgnorable :: "codepoint \<Rightarrow> bool"

definition CAPITAL_SIGMA :: codepoint where
  "CAPITAL_SIGMA = 0x3A3"

text \<open>
  The word-final test looks back over the characters before the sigma (\<open>before\<close>, nearest
  first) and ahead over those after it, skipping case-ignorable ones both ways: the sigma
  is final when a cased character precedes it and none follows.
\<close>

definition final_sigma :: "unicode_db \<Rightarrow> pystr \<Rightarrow> pystr \<Rightarrow> bool" where
  "final_sigma U before after =
     ((case dropWhile (IsCaseIgnorable U) before of [] \<Rightarrow> False | c # _ \<Rightarrow> IsCased U c) \<and>
      (case dropWhile (IsCaseIgnorable U) after of [] \<Rightarrow> True | c # _ \<Rightarrow> \<not> IsCased U c))"

definition lower_char :: "unicode_db \<Rightarrow> pystr \<Rightarrow> codepoint \<Rightarrow> pystr \<Rightarrow> pystr" where
  "lower_char U before c after =
     (if c = CAPITAL_SIGMA then [if final_sigma U before after then 0x3C2 else 0x3C3]
      else ToLowerFull U c)"

fun lower_from :: "unicode_db \<Rightarrow> pystr \<Rightarrow> pystr \<Rightarrow> pystr" where
  "lower_from U before [] = []"
| "lower_from U before (c # cs) = lower_char U before c cs @ lower_from U (c # before) cs"

definition lower :: "unicode_db \<Rightarrow> pystr \<Rightarrow> pystr" where
  "lower U s = lower_from U [] s"

section \<open>Errors and JSON values\<close>

text \<open>
  The exceptions that can leave a function of the program.  \<open>HTTPError\<close> stands for every
  failure of the request (transport or status); \<open>ValueError\<close> and \<open>RecursionError\<close> are
  what \<^verbatim>\<open>json.loads\<close> can raise besides \<^verbatim>\<open>json.JSONDecodeError\<close>.
\<close>

datatype error =
  HTTPError | JSONDecodeError | ValueError | RecursionError | AttributeError | TypeError | OSError

text \<open>What \<^verbatim>\<open>json.loads\<close> returns; \<^verbatim>\<open>None\<close> is \<open>JNull\<close>, a \<^verbatim>\<open>dict\<close> is an association list.\<close>

datatype json =
    JNull
  | JBool bool
  | JInt int
  | JFloat real
  | JString pystr
  | JArray "json list"
  | JObject "(pystr \<times> json) list"

text \<open>Python's truth value of such a value.\<close>

fun truthy :: "json \<Rightarrow> bool" where
  "truthy JNull = False"
| "truthy (JBool b) = b"
| "truthy (JInt n) = (n \<noteq> 0)"
| "truthy (JFloat x) = (x \<noteq> 0)"
| "truthy (JString s) = (s \<noteq> [])"
| "truthy (JArray xs) = (xs \<noteq> [])"
| "truthy (JObject kvs) = (kvs \<noteq> [])"

text \<open>Whether a value is a \<^verbatim>\<open>str\<close>, its characters if it is, and whether it is a \<^verbatim>\<open>dict\<close>.\<close>

fun is_text :: "json \<Rightarrow> bool" where
  "is_text (JString s) = True"
| "is_text _ = False"

fun text_of :: "json \<Rightarrow> pystr" where
  "text_of (JString s) = s"
| "text_of _ = []"


text \<open>\<^verbatim>\<open>a or b\<close>\<close>

definition py_or :: "json \<Rightarrow> json \<Rightarrow> json" where
  "py_or a b = (if truthy a then a else b)"

text \<open>
  \<^verbatim>\<open>meta.get(key)\<close>: the value under the key, \<^verbatim>\<open>None\<close> without one; only a \<^verbatim>\<open>dict\<close>
  has the method.
\<close>

fun meta_get :: "json \<Rightarrow> pystr \<Rightarrow> error + json" where
  "meta_get (JObject kvs) key = Inr (case map_of kvs key of None \<Rightarrow> JNull | Some v \<Rightarrow> v)"
| "meta_get _ key = Inl AttributeError"

section \<open>Product listings\<close>

text \<open>
  The dataclass \<^verbatim>\<open>Product\<close>.  The title is a string and the price a string or
  \<^verbatim>\<open>None\<close>, as declared and as both extractors build them.  The category is declared
  \<^verbatim>\<open>Optional[str]\<close>, but a dataclass checks nothing and the card extractor stores whatever
  value the metadata holds under the key: so the field holds any value, \<^verbatim>\<open>None\<close> being
  \<open>JNull\<close> and a string \<open>JString\<close>.
\<close>

record Product =
  title :: pystr
  price :: "pystr option"
  category :: json

text \<open>
  \<^verbatim>\<open>" ".join(parts)\<close> on a list of values: \<^verbatim>\<open>TypeError\<close> unless every part is a string.
\<close>

definition py_join :: "pystr \<Rightarrow> json list \<Rightarrow> error + pystr" where
  "py_join sep parts =
     (if list_all is_text parts then Inr (join sep (map text_of parts)) else Inl TypeError)"

text \<open>
  \<^verbatim>\<open>filter(None, [self.category, self.title])\<close> keeps the entries that are truthy.
\<close>

definition truthy_parts :: "Product \<Rightarrow> json list" where
  "truthy_parts p = filter truthy [category p, JString (title p)]"

definition matches_keyword :: "unicode_db \<Rightarrow> Product \<Rightarrow> pystr \<Rightarrow> error + bool" where
  "matches_keyword U p keyword =
     (let normalized = lower U (replace_space keyword)
      in case py_join [SPACE] (truthy_parts p) of
           Inl e \<Rightarrow> Inl e
         | Inr haystack \<Rightarrow> Inr (str_contains (lower U (replace_space haystack)) normalized))"

text \<open>
  The list comprehension of \<^verbatim>\<open>filter_products\<close>, from left to right: an exception of
  \<^verbatim>\<open>matches_keyword\<close> on a product ends it.
\<close>

fun filter_products :: "unicode_db \<Rightarrow> Product list \<Rightarrow> pystr \<Rightarrow> error + Product list" where
  "filter_products U [] keyword = Inr []"
| "filter_products U (product # products) keyword =
     (case matches_keyword U product keyword of
        Inl e \<Rightarrow> Inl e
      | Inr matches \<Rightarrow>
          (case filter_products U products keyword of
             Inl e \<Rightarrow> Inl e
           | Inr kept \<Rightarrow> Inr (if matches then product # kept else kept)))"

text \<open>
  The category as text, \<^verbatim>\<open>None\<close> read as the empty string; and the listings on which the
  join of \<^verbatim>\<open>matches_keyword\<close> does not raise: those whose category is a string or falsy.
  Every listing of the data model (category a string or \<^verbatim>\<open>None\<close>) is one.
\<close>

definition category_text :: "Product \<Rightarrow> pystr" where
  "category_text p = text_of (category p)"

definition category_joins :: "Product \<Rightarrow> bool" where
  "category_joins p = (is_text (category p) \<or> \<not> truthy (category p))"

section \<open>Regular expressions\<close>

text \<open>
  The two patterns of the program are sequences of character classes, each taken once,
  optionally (\<^verbatim>\<open>?\<close>), repeatedly (\<^verbatim>\<open>*\<close>, \<^verbatim>\<open>+\<close>) or repeatedly and lazily
  (\<^verbatim>\<open>*?\<close>), with capture groups around some of them.  \<open>bt\<close> is the backtracking
  matcher of \<^verbatim>\<open>re\<close> on such a pattern: a greedy item first tries to take a character,
  a lazy one first tries to go on without, and the first way through the whole pattern is
  the match.  It returns the length matched and the offsets where groups opened and closed.
\<close>

datatype quant = One | Opt | Star | Plus | LazyStar

datatype item = Cls "codepoint \<Rightarrow> bool" quant | GroupOpen nat | GroupClose nat

datatype mark = Opened nat | Closed nat

type_synonym marks = "(mark \<times> nat) list"

function bt :: "item list \<Rightarrow> pystr \<Rightarrow> nat \<Rightarrow> marks \<Rightarrow> (nat \<times> marks) option" where
  "bt [] s pos ms = Some (pos, ms)"
| "bt (GroupOpen k # r) s pos ms = bt r s pos ((Opened k, pos) # ms)"
| "bt (GroupClose k # r) s pos ms = bt r s pos ((Closed k, pos) # ms)"
| "bt (Cls P One # r) [] pos ms = None"
| "bt (Cls P One # r) (c # cs) pos ms = (if P c then bt r cs (Suc pos) ms else None)"
| "bt (Cls P Opt # r) [] pos ms = bt r [] pos ms"
| "bt (Cls P Opt # r) (c # cs) pos ms =
     (if P c then
        (case bt r cs (Suc pos) ms of Some m \<Rightarrow> Some m | None \<Rightarrow> bt r (c # cs) pos ms)
      else bt r (c # cs) pos ms)"
| "bt (Cls P Star # r) [] pos ms = bt r [] pos ms"
| "bt (Cls P Star # r) (c # cs) pos ms =
     (if P c then
        (case bt (Cls P Star # r) cs (Suc pos) ms of Some m \<Rightarrow> Some m
         | None \<Rightarrow> bt r (c # cs) pos ms)
      else bt r (c # cs) pos ms)"
| "bt (Cls P Plus # r) [] pos ms = None"
| "bt (Cls P Plus # r) (c # cs) pos ms =
     (if P c then bt (Cls P Star # r) cs (Suc pos) ms else None)"
| "bt (Cls P LazyStar # r) [] pos ms = bt r [] pos ms"
| "bt (Cls P LazyStar # r) (c # cs) pos ms =
     (case bt r (c # cs) pos ms of Some m \<Rightarrow> Some m
      | None \<Rightarrow> if P c then bt (Cls P LazyStar # r) cs (Suc pos) ms else None)"
  by pat_completeness auto
termination
  by (relation "measures [\<lambda>(p, s, pos, ms). length s, \<lambda>(p, s, pos, ms). length p]") auto

text \<open>\<^verbatim>\<open>match.group(k)\<close>: the text between the offsets where group \<open>k\<close> opened and closed.\<close>

definition group :: "pystr \<Rightarrow> marks \<Rightarrow> nat \<Rightarrow> pystr" where
  "group s ms k =
     (case (map_of ms (Opened k), map_of ms (Closed k)) of
        (Some i, Some j) \<Rightarrow> take (j - i) (drop i s)
      | _ \<Rightarrow> [])"

text \<open>\<^verbatim>\<open>re.search\<close>: the match at the leftmost offset that has one.\<close>

fun search :: "item list \<Rightarrow> pystr \<Rightarrow> (pystr \<times> marks) option" where
  "search p [] = (case bt p [] 0 [] of Some (n, ms) \<Rightarrow> Some ([], ms) | None \<Rightarrow> None)"
| "search p (c # cs) =
     (case bt p (c # cs) 0 [] of Some (n, ms) \<Rightarrow> Some (c # cs, ms) | None \<Rightarrow> search p cs)"

text \<open>
  \<^verbatim>\<open>pattern.finditer\<close>: the matches from left to right, each search resuming where the
  match before it ended.  A match of the script pattern is never empty (it holds both
  braces), so the rule of \<^verbatim>\<open>re\<close> for resuming after an empty match is not needed; an empty
  match moves on by one character here.
\<close>

function finditer :: "item list \<Rightarrow> pystr \<Rightarrow> (pystr \<times> marks) list" where
  "finditer p [] = (case bt p [] 0 [] of Some (n, ms) \<Rightarrow> [([], ms)] | None \<Rightarrow> [])"
| "finditer p (c # cs) =
     (case bt p (c # cs) 0 [] of
        Some (n, ms) \<Rightarrow> (c # cs, ms) # finditer p (drop (n - 1) cs)
      | None \<Rightarrow> finditer p cs)"
  by pat_completeness auto
termination
  by (relation "measure (\<lambda>(p, s). length s)") auto

definition lit :: "string \<Rightarrow> item list" where
  "lit s = map (\<lambda>c. Cls (\<lambda>x. x = c) One) (str s)"

text \<open>
  \<^verbatim>\<open>\s\<close> in a pattern over \<^verbatim>\<open>str\<close> is Unicode white space; \<^verbatim>\<open>[0-9,]\<close> is the ten ASCII
  digits and the comma; \<^verbatim>\<open>.\<close> is anything but a line feed; \<^verbatim>\<open>[^\}]\<close> is anything but a
  closing brace.
\<close>

definition is_space :: "codepoint \<Rightarrow> bool" where
  "is_space c = ((9 \<le> c \<and> c \<le> 13) \<or> (28 \<le> c \<and> c \<le> 32) \<or> c = 0x85 \<or> c = 0xA0 \<or>
     c = 0x1680 \<or> (0x2000 \<le> c \<and> c \<le> 0x200A) \<or> c = 0x2028 \<or> c = 0x2029 \<or>
     c = 0x202F \<or> c = 0x205F \<or> c = 0x3000)"

definition is_digit_or_comma :: "codepoint \<Rightarrow> bool" where
  "is_digit_or_comma c = ((48 \<le> c \<and> c \<le> 57) \<or> c = 44)"

definition is_dot :: "codepoint \<Rightarrow> bool" where
  "is_dot c = (c \<noteq> 10)"

definition not_rbrace :: "codepoint \<Rightarrow> bool" where
  "not_rbrace c = (c \<noteq> 125)"

definition is_char :: "codepoint \<Rightarrow> codepoint \<Rightarrow> bool" where
  "is_char a c = (c = a)"

text \<open>\<^verbatim>\<open>NT\$?\s*([0-9,]+)\<close>\<close>

definition price_pattern :: "item list" where
  "price_pattern =
     lit ''NT'' @ [Cls (is_char 36) Opt, Cls is_space Star,
       GroupOpen 1, Cls is_digit_or_comma Plus, GroupClose 1]"

text \<open>\<^verbatim>\<open>\{[^\}]*?goodsName\s*:\s*\"?(.*?)\"?[^\}]*?price\s*:?\s*\"?([0-9,]+)\"?[^\}]*?\}\<close>\<close>

definition script_pattern :: "item list" where
  "script_pattern =
     [Cls (is_char 123) One, Cls not_rbrace LazyStar] @ lit ''goodsName'' @
     [Cls is_space Star, Cls (is_char 58) One, Cls is_space Star, Cls (is_char 34) Opt,
      GroupOpen 1, Cls is_dot LazyStar, GroupClose 1,
      Cls (is_char 34) Opt, Cls not_rbrace LazyStar] @ lit ''price'' @
     [Cls is_space Star, Cls (is_char 58) Opt, Cls is_space Star, Cls (is_char 34) Opt,
      GroupOpen 2, Cls is_digit_or_comma Plus, GroupClose 2,
      Cls (is_char 34) Opt, Cls not_rbrace LazyStar, Cls (is_char 125) One]"

section \<open>The parsed page\<close>

text \<open>
  BeautifulSoup is outside the program.  The program sees a parsed page only through the
  calls below, one field for each call it makes, with the selector it passes fixed in the
  field:
  \<^item> \<open>soup_of\<close>: \<^verbatim>\<open>BeautifulSoup(html, "lxml")\<close>;
  \<^item> \<open>select_cards\<close>: \<^verbatim>\<open>soup.select("li[data-index], li.goodsItemLi, li[class*=prd], li[class*=goodsItem]")\<close>;
  \<^item> \<open>select_title\<close>: \<^verbatim>\<open>li.select_one("h3, p.prdName, p[class*=name], div[class*=name]")\<close>;
  \<^item> \<open>find_anchor\<close>: \<^verbatim>\<open>li.find("a", attrs={"title": True})\<close>;
  \<^item> \<open>select_price\<close>: \<^verbatim>\<open>li.select_one("span.price, span[class*=price], em[class*=price], b[class*=price]")\<close>;
  \<^item> \<open>get_text_strip\<close>: \<^verbatim>\<open>element.get_text(strip=True)\<close>;
  \<^item> \<open>get_text\<close>: \<^verbatim>\<open>element.get_text()\<close>, which is also \<^verbatim>\<open>element.text\<close>;
  \<^item> \<open>get_attr\<close>: \<^verbatim>\<open>li.get(name)\<close>;
  \<^item> \<open>find_scripts\<close>: \<^verbatim>\<open>soup.find_all("script")\<close>;
  \<^item> \<open>string_of\<close>: \<^verbatim>\<open>script.string\<close>.
  An element is always truthy, so \<^verbatim>\<open>not element\<close> is the test for \<^verbatim>\<open>None\<close>.
\<close>

record ('soup, 'tag) bs4 =
  soup_of :: "pystr \<Rightarrow> 'soup"
  select_cards :: "'soup \<Rightarrow> 'tag list"
  select_title :: "'tag \<Rightarrow> 'tag option"
  find_anchor :: "'tag \<Rightarrow> 'tag option"
  select_price :: "'tag \<Rightarrow> 'tag option"
  get_text_strip :: "'tag \<Rightarrow> pystr"
  get_text :: "'tag \<Rightarrow> pystr"
  get_attr :: "'tag \<Rightarrow> pystr \<Rightarrow> pystr option"
  find_scripts :: "'soup \<Rightarrow> 'tag list"
  string_of :: "'tag \<Rightarrow> pystr option"

section \<open>Extraction\<close>

definition text_or_none :: "('soup, 'tag) bs4 \<Rightarrow> 'tag option \<Rightarrow> pystr option" where
  "text_or_none B element =
     (case element of
        None \<Rightarrow> None
      | Some e \<Rightarrow> (let t = get_text_strip B e in if t \<noteq> [] then Some t else None))"

text \<open>\<^verbatim>\<open>x or y\<close> on two optional strings: \<open>x\<close> when it is a non-empty string, else \<open>y\<close>.\<close>

definition str_or :: "pystr option \<Rightarrow> pystr option \<Rightarrow> pystr option" where
  "str_or x y = (case x of None \<Rightarrow> y | Some s \<Rightarrow> if s \<noteq> [] then Some s else y)"

text \<open>
  \<^verbatim>\<open>_parse_json_metadata\<close>.  \<open>raw_metadata\<close> is its first line, the first of the three
  attributes that is a non-empty string; \<open>loads\<close> is \<^verbatim>\<open>json.loads\<close>; the handler catches
  \<^verbatim>\<open>json.JSONDecodeError\<close> and nothing else.
\<close>

definition raw_metadata :: "('soup, 'tag) bs4 \<Rightarrow> 'tag \<Rightarrow> pystr option" where
  "raw_metadata B li =
     str_or (str_or (get_attr B li (str ''data-ec'')) (get_attr B li (str ''ec-data'')))
       (get_attr B li (str ''data-gtm''))"

definition parse_json_metadata ::
  "('soup, 'tag) bs4 \<Rightarrow> (pystr \<Rightarrow> error + json) \<Rightarrow> 'tag \<Rightarrow> error + json option" where
  "parse_json_metadata B loads li =
     (case raw_metadata B li of
        None \<Rightarrow> Inr None
      | Some raw \<Rightarrow>
          if raw = [] then Inr None
          else (case loads raw of
                  Inr v \<Rightarrow> Inr (Some v)
                | Inl JSONDecodeError \<Rightarrow> Inr None
                | Inl e \<Rightarrow> Inl e))"

text \<open>
  Lines 107 to 109: the category read from the metadata.  \<^verbatim>\<open>if meta\<close> skips \<^verbatim>\<open>None\<close> and
  every falsy value; \<^verbatim>\<open>meta.get\<close> on a truthy value that is not a \<^verbatim>\<open>dict\<close> raises
  \<^verbatim>\<open>AttributeError\<close>; \<^verbatim>\<open>a or b\<close> is \<open>a\<close> when that is truthy and \<open>b\<close> otherwise, whatever
  \<open>b\<close> is.  The value found is stored as it is.
\<close>

definition category_of :: "json option \<Rightarrow> error + json" where
  "category_of meta =
     (case meta of
        None \<Rightarrow> Inr JNull
      | Some m \<Rightarrow>
          if \<not> truthy m then Inr JNull
          else (case meta_get m (str ''cateLevel2Name'') of
                  Inl e \<Rightarrow> Inl e
                | Inr a \<Rightarrow> if truthy a then Inr a else meta_get m (str ''cateLevel1Name'')))"

text \<open>Lines 95 to 104: the price of one candidate.\<close>

definition price_of :: "('soup, 'tag) bs4 \<Rightarrow> 'tag \<Rightarrow> pystr option" where
  "price_of B li =
     (case select_price B li of
        None \<Rightarrow>
          (case search price_pattern (get_text B li) of
             None \<Rightarrow> None
           | Some (s, ms) \<Rightarrow> Some (group s ms 1))
      | Some price_node \<Rightarrow> text_or_none B (Some price_node))"

text \<open>Lines 90 to 93: the title of one candidate.\<close>

definition title_of :: "('soup, 'tag) bs4 \<Rightarrow> 'tag \<Rightarrow> pystr option" where
  "title_of B li =
     (let title_node = (case select_title B li of None \<Rightarrow> find_anchor B li | Some n \<Rightarrow> Some n)
      in text_or_none B title_node)"

text \<open>
  The loop of \<^verbatim>\<open>_extract_from_cards\<close> over the candidates, \<open>products\<close> being the list
  built so far.  \<^verbatim>\<open>if title\<close> admits a candidate whose title is a non-empty string.
\<close>

fun cards_loop ::
  "('soup, 'tag) bs4 \<Rightarrow> (pystr \<Rightarrow> error + json) \<Rightarrow> 'tag list \<Rightarrow> Product list \<Rightarrow>
   error + Product list" where
  "cards_loop B loads [] products = Inr products"
| "cards_loop B loads (li # candidates) products =
     (let title' = title_of B li; price' = price_of B li
      in case parse_json_metadata B loads li of
           Inl e \<Rightarrow> Inl e
         | Inr meta \<Rightarrow>
             (case category_of meta of
                Inl e \<Rightarrow> Inl e
              | Inr category' \<Rightarrow>
                  cards_loop B loads candidates
                    (case title' of
                       None \<Rightarrow> products
                     | Some t \<Rightarrow>
                         if t \<noteq> [] then
                           products @ [\<lparr>title = t, price = price', category = category'\<rparr>]
                         else products)))"

definition extract_from_cards ::
  "('soup, 'tag) bs4 \<Rightarrow> (pystr \<Rightarrow> error + json) \<Rightarrow> 'soup \<Rightarrow> error + Product list" where
  "extract_from_cards B loads soup = cards_loop B loads (select_cards B soup) []"

text \<open>
  \<^verbatim>\<open>_extract_from_scripts\<close>: \<^verbatim>\<open>script.string or script.text\<close>, skipped when empty, and one
  product for every match of the pattern, whatever its groups hold.
\<close>

definition script_text :: "('soup, 'tag) bs4 \<Rightarrow> 'tag \<Rightarrow> pystr" where
  "script_text B script =
     (case string_of B script of
        None \<Rightarrow> get_text B script
      | Some s \<Rightarrow> if s \<noteq> [] then s else get_text B script)"

definition script_products :: "pystr \<Rightarrow> Product list" where
  "script_products t =
     map (\<lambda>(s, ms). \<lparr>title = group s ms 1, price = Some (group s ms 2), category = JNull\<rparr>)
       (finditer script_pattern t)"

fun scripts_loop :: "('soup, 'tag) bs4 \<Rightarrow> 'tag list \<Rightarrow> Product list \<Rightarrow> Product list" where
  "scripts_loop B [] products = products"
| "scripts_loop B (script # scripts) products =
     (let t = script_text B script
      in if t = [] then scripts_loop B scripts products
         else scripts_loop B scripts (products @ script_products t))"

definition extract_from_scripts :: "('soup, 'tag) bs4 \<Rightarrow> 'soup \<Rightarrow> Product list" where
  "extract_from_scripts B soup = scripts_loop B (find_scripts B soup) []"

definition extract_products ::
  "('soup, 'tag) bs4 \<Rightarrow> (pystr \<Rightarrow> error + json) \<Rightarrow> pystr \<Rightarrow> error + Product list" where
  "extract_products B loads html =
     (let soup = soup_of B html
      in case extract_from_cards B loads soup of
           Inl e \<Rightarrow> Inl e
         | Inr products \<Rightarrow>
             if products = [] then Inr (extract_from_scripts B soup) else Inr products)"

section \<open>Filtering, limiting and output\<close>

text \<open>\<^verbatim>\<open>xs[:n]\<close> for any integer \<open>n\<close>: a negative \<open>n\<close> counts from the end.\<close>

definition slice_to :: "'a list \<Rightarrow> int \<Rightarrow> 'a list" where
  "slice_to xs n = (if n < 0 then take (nat (int (length xs) + n)) xs else take (nat n) xs)"

text \<open>\<^verbatim>\<open>str(n)\<close> for a length.\<close>

fun str_of_nat :: "nat \<Rightarrow> pystr" where
  "str_of_nat n = (if n < 10 then [48 + n] else str_of_nat (n div 10) @ [48 + n mod 10])"

declare str_of_nat.simps [simp del]

text \<open>\<^verbatim>\<open>x or default\<close> on an optional string.\<close>

definition or_default :: "pystr option \<Rightarrow> pystr \<Rightarrow> pystr" where
  "or_default x d = (case x of None \<Rightarrow> d | Some s \<Rightarrow> if s \<noteq> [] then s else d)"

text \<open>
  An f-string field holds \<^verbatim>\<open>format(value, "")\<close>: a string as it is, and \<^verbatim>\<open>str(value)\<close> for
  any other value, which is the built-in \<open>py_str\<close>, a parameter.
\<close>

definition format_value :: "(json \<Rightarrow> pystr) \<Rightarrow> json \<Rightarrow> pystr" where
  "format_value py_str v = (case v of JString s \<Rightarrow> s | _ \<Rightarrow> py_str v)"

definition format_line :: "(json \<Rightarrow> pystr) \<Rightarrow> Product \<Rightarrow> pystr" where
  "format_line py_str product =
     (let price_part = or_default (price product) (str ''N/A'');
          category_part =
            (if truthy (category product)
             then str '' ('' @ format_value py_str (category product) @ str '')''
             else [])
      in str ''- '' @ title product @ category_part @ str '': '' @ price_part)"

definition format_products :: "(json \<Rightarrow> pystr) \<Rightarrow> Product list \<Rightarrow> pystr" where
  "format_products py_str products = join [10] (map (format_line py_str) products)"

text \<open>The command line after \<^verbatim>\<open>parse_args\<close>.\<close>

record args =
  url :: pystr
  keyword :: pystr
  as_json :: bool
  csv_path :: "pystr option"
  limit :: "int option"

text \<open>
  What the program does to the outside, in order: a CSV file written, with the rows
  handed to \<^verbatim>\<open>writer.writerow\<close> (a cell is a value), and a string printed to standard
  output.
\<close>

datatype event = WriteCsv pystr "json list list" | Print pystr

text \<open>
  What \<^verbatim>\<open>main\<close> needs from outside the program: the Unicode tables, BeautifulSoup,
  \<^verbatim>\<open>json.loads\<close> and \<^verbatim>\<open>json.dumps(payload, ensure_ascii=False, indent=2)\<close>, the built-in
  \<^verbatim>\<open>str\<close> on a value that is not a string, the request of \<^verbatim>\<open>fetch_html\<close> (the decoded
  body, or the error raised), and whether \<^verbatim>\<open>open(path, "w")\<close> succeeds.
\<close>

record ('soup, 'tag) world =
  unicode :: unicode_db
  bs :: "('soup, 'tag) bs4"
  json_loads :: "pystr \<Rightarrow> error + json"
  json_dumps :: "json \<Rightarrow> pystr"
  py_str :: "json \<Rightarrow> pystr"
  http_get :: "pystr \<Rightarrow> error + pystr"
  can_open :: "pystr \<Rightarrow> bool"

definition fetch_html :: "('soup, 'tag) world \<Rightarrow> pystr \<Rightarrow> error + pystr" where
  "fetch_html W u = http_get W u"

text \<open>
  The header row and the row of a product in the CSV file: the title,
  \<^verbatim>\<open>product.price or ""\<close> and \<^verbatim>\<open>product.category or ""\<close>.
\<close>

definition field_names :: "pystr list" where
  "field_names = [str ''title'', str ''price'', str ''category'']"

definition csv_header :: "json list" where
  "csv_header = map JString field_names"

definition csv_row :: "Product \<Rightarrow> json list" where
  "csv_row product =
     [JString (title product), JString (or_default (price product) []),
      py_or (category product) (JString [])]"

text \<open>\<^verbatim>\<open>product.__dict__\<close>: the three fields under their names, \<^verbatim>\<open>None\<close> as \<open>JNull\<close>.\<close>

definition json_of_field :: "pystr option \<Rightarrow> json" where
  "json_of_field x = (case x of None \<Rightarrow> JNull | Some s \<Rightarrow> JString s)"

definition product_dict :: "Product \<Rightarrow> (pystr \<times> json) list" where
  "product_dict product =
     [(str ''title'', JString (title product)),
      (str ''price'', json_of_field (price product)),
      (str ''category'', category product)]"

text \<open>
  A field of the JSON payload and a CSV cell carry the same value when the field is a
  string and the cell is that string, or the field is \<^verbatim>\<open>null\<close> and the cell is the empty
  string.
\<close>

definition same_value :: "json \<Rightarrow> json \<Rightarrow> bool" where
  "same_value field cell =
     (case field of
        JString s \<Rightarrow> cell = JString s
      | JNull \<Rightarrow> cell = JString []
      | _ \<Rightarrow> False)"

text \<open>Lines 177 to 182 of \<^verbatim>\<open>main\<close>: fetch, extract, filter, limit.\<close>

definition apply_limit :: "int option \<Rightarrow> Product list \<Rightarrow> Product list" where
  "apply_limit given filtered = (case given of None \<Rightarrow> filtered | Some n \<Rightarrow> slice_to filtered n)"

definition main_filtered :: "('soup, 'tag) world \<Rightarrow> args \<Rightarrow> error + Product list" where
  "main_filtered W a =
     (case fetch_html W (url a) of
        Inl e \<Rightarrow> Inl e
      | Inr html \<Rightarrow>
          (case extract_products (bs W) (json_loads W) html of
             Inl e \<Rightarrow> Inl e
           | Inr products \<Rightarrow>
               (case filter_products (unicode W) products (keyword a) of
                  Inl e \<Rightarrow> Inl e
                | Inr filtered \<Rightarrow> Inr (apply_limit (limit a) filtered))))"

text \<open>
  Lines 184 to 202 of \<^verbatim>\<open>main\<close>: the CSV file first, then the empty case with its early
  return, then the listing and the line about the file.
\<close>

definition main_output :: "('soup, 'tag) world \<Rightarrow> args \<Rightarrow> Product list \<Rightarrow> error + event list" where
  "main_output W a filtered =
     (case (case csv_path a of
              None \<Rightarrow> Inr []
            | Some path \<Rightarrow>
                if can_open W path
                then Inr [WriteCsv path (csv_header # map csv_row filtered)]
                else Inl OSError) of
        Inl e \<Rightarrow> Inl e
      | Inr written \<Rightarrow>
          if filtered = [] then Inr (written @ [Print (str ''No matching products found.'')])
          else
            Inr (written @
              [Print (if as_json a
                      then json_dumps W (JArray (map (\<lambda>product. JObject (product_dict product)) filtered))
                      else format_products (py_str W) filtered)] @
              (case csv_path a of
                 None \<Rightarrow> []
               | Some path \<Rightarrow>
                   [Print (str ''Saved '' @ str_of_nat (length filtered) @
                           str '' products to '' @ path)])))"

definition main :: "('soup, 'tag) world \<Rightarrow> args \<Rightarrow> error + event list" where
  "main W a =
     (case main_filtered W a of
        Inl e \<Rightarrow> Inl e
      | Inr filtered \<Rightarrow> main_output W a filtered)"

section \<open>Sample inputs\<close>

text \<open>
  Concrete inputs on which the definitions are run.  \<open>basic_latin\<close> holds the rows of the
  Unicode tables for the Basic Latin block and leaves every other code point as it is,
  which is what the tables say of the characters without case, such as the ideographs.
\<close>

definition basic_latin :: unicode_db where
  "basic_latin =
     \<lparr>ToLowerFull = (\<lambda>c. if 65 \<le> c \<and> c \<le> 90 then [c + 32] else [c]),
      IsCased = (\<lambda>c. (65 \<le> c \<and> c \<le> 90) \<or> (97 \<le> c \<and> c \<le> 122)),
      IsCaseIgnorable = (\<lambda>c. c = 39 \<or> c = 46 \<or> c = 58 \<or> c = 94 \<or> c = 96)\<rparr>"

text \<open>The keyword \<^verbatim>\<open>AI\<close> followed by U+624B U+6A5F, and the category with a space between.\<close>

definition ai_phone_keyword :: pystr where
  "ai_phone_keyword = str ''AI'' @ [0x624B, 0x6A5F]"

definition ai_phone_category :: pystr where
  "ai_phone_category = str ''AI '' @ [0x624B, 0x6A5F]"

definition phone_a :: Product where
  "phone_a =
     \<lparr>title = str ''Phone A'', price = Some (str ''9,999''), category = JString ai_phone_category\<rparr>"

definition cable_b :: Product where
  "cable_b = \<lparr>title = str ''Cable B'', price = None, category = JNull\<rparr>"

definition phone_c :: Product where
  "phone_c = \<lparr>title = str ''ai phone C'', price = Some (str ''123''), category = JString []\<rparr>"

text \<open>A listing whose category is the number 0, and one whose category is the number 5.\<close>

definition phone_zero :: Product where
  "phone_zero = \<lparr>title = str ''Phone A'', price = Some (str ''9,999''), category = JInt 0\<rparr>"

definition phone_five :: Product where
  "phone_five = \<lparr>title = str ''Phone A'', price = Some (str ''9,999''), category = JInt 5\<rparr>"

text \<open>
  A page as the program sees it: each element carries the answers of the calls of
  \<open>bs4\<close> on it.
\<close>

datatype sample_tag =
  SampleTag (name_text: "pystr option") (anchor_text: "pystr option")
    (price_text: "pystr option") (all_text: pystr) (attributes: "(pystr \<times> pystr) list")

record sample_page =
  cards :: "sample_tag list"
  scripts :: "sample_tag list"

definition leaf :: "pystr \<Rightarrow> sample_tag" where
  "leaf t = SampleTag None None None t []"

definition sample_bs4 :: "sample_page \<Rightarrow> (sample_page, sample_tag) bs4" where
  "sample_bs4 page =
     \<lparr>soup_of = (\<lambda>html. page),
      select_cards = cards,
      select_title = (\<lambda>t. map_option leaf (name_text t)),
      find_anchor = (\<lambda>t. map_option leaf (anchor_text t)),
      select_price = (\<lambda>t. map_option leaf (price_text t)),
      get_text_strip = all_text,
      get_text = all_text,
      get_attr = (\<lambda>t. map_of (attributes t)),
      find_scripts = scripts,
      string_of = (\<lambda>t. Some (all_text t))\<rparr>"

text \<open>
  \<^verbatim>\<open>json.loads\<close> on the metadata payloads of the samples: a hundred thousand opening
  brackets or more exhaust the recursion limit, an unclosed object does not decode, and
  the others are a list, the empty object, an object with a category and an object whose
  broader category is the number 0.  The samples use no other payload; any other string
  is given as not decoding.
\<close>

definition sample_loads :: "pystr \<Rightarrow> error + json" where
  "sample_loads raw =
     (if 100000 \<le> length raw \<and> raw = replicate (length raw) 91 then Inl RecursionError
      else if raw = str ''{bad'' then Inl JSONDecodeError
      else if raw = str ''[1]'' then Inr (JArray [JInt 1])
      else if raw = str ''{}'' then Inr (JObject [])
      else if raw = str ''{\"cateLevel2Name\": \"Phones\"}''
        then Inr (JObject [(str ''cateLevel2Name'', JString (str ''Phones''))])
      else if raw = str ''{\"cateLevel1Name\": 0}''
        then Inr (JObject [(str ''cateLevel1Name'', JInt 0)])
      else Inl JSONDecodeError)"

text \<open>\<^verbatim>\<open>str\<close> on the values of the samples that are not strings: the integers.\<close>

definition sample_str :: "json \<Rightarrow> pystr" where
  "sample_str v =
     (case v of
        JInt n \<Rightarrow> (if n < 0 then 45 # str_of_nat (nat (- n)) else str_of_nat (nat n))
      | _ \<Rightarrow> [])"

definition sample_world :: "sample_page \<Rightarrow> (sample_page, sample_tag) world" where
  "sample_world page =
     \<lparr>unicode = basic_latin,
      bs = sample_bs4 page,
      json_loads = sample_loads,
      json_dumps = (\<lambda>payload. str ''<json>''),
      py_str = sample_str,
      http_get = (\<lambda>u. Inr (str ''<html>'')),
      can_open = (\<lambda>path. True)\<rparr>"

definition empty_page :: sample_page where
  "empty_page = \<lparr>cards = [], scripts = []\<rparr>"

text \<open>A page with no card and one inline script that holds a product object.\<close>

definition script_page :: sample_page where
  "script_page =
     \<lparr>cards = [],
      scripts = [leaf (str ''var goods = {goodsName:\"Phone A\",price:\"9,999\"};'')]\<rparr>"

text \<open>A page with one card whose metadata attribute does not decode.\<close>

definition bad_meta_page :: sample_page where
  "bad_meta_page =
     \<lparr>cards = [SampleTag (Some (str ''Phone A'')) None None (str ''Phone A NT$9,999'')
                 [(str ''data-ec'', str ''{bad'')]],
      scripts = []\<rparr>"

text \<open>A page with one card whose metadata attribute decodes to a list.\<close>

definition list_meta_page :: sample_page where
  "list_meta_page =
     \<lparr>cards = [SampleTag (Some (str ''Phone A'')) None None (str ''Phone A NT$9,999'')
                 [(str ''data-ec'', str ''[1]'')]],
      scripts = []\<rparr>"


text \<open>A page with one card whose metadata holds the number 0 as the broader category.\<close>

definition zero_category_page :: sample_page where
  "zero_category_page =
     \<lparr>cards = [SampleTag (Some (str ''Phone A'')) None None (str ''Phone A NT$9,999'')
                 [(str ''data-ec'', str ''{\"cateLevel1Name\": 0}'')]],
      scripts = []\<rparr>"

text \<open>
  A page with two cards, the first with metadata that does not decode, the second with a
  category in its metadata.
\<close>

definition two_card_page :: sample_page where
  "two_card_page =
     \<lparr>cards = [SampleTag (Some (str ''Phone A'')) None None (str ''Phone A NT$9,999'')
                 [(str ''data-ec'', str ''{bad'')],
               SampleTag None (Some (str ''Phone B'')) (Some (str ''$5'')) (str ''Phone B'')
                 [(str ''data-gtm'', str ''{\"cateLevel2Name\": \"Phones\"}'')]],
      scripts = []\<rparr>"

definition plain_args :: args where
  "plain_args =
     \<lparr>url = str ''https://www.momoshop.com.tw/'', keyword = ai_phone_keyword, as_json = False,
      csv_path = None, limit = None\<rparr>"

definition json_csv_args :: args where
  "json_csv_args =
     \<lparr>url = str ''https://www.momoshop.com.tw/'', keyword = [], as_json = True,
      csv_path = Some (str ''out.csv''), limit = Some 1\<rparr>"

definition csv_args :: args where
  "csv_args =
     \<lparr>url = str ''https://www.momoshop.com.tw/'', keyword = ai_phone_keyword, as_json = False,
      csv_path = Some (str ''out.csv''), limit = None\<rparr>"

section \<open>Facts about text\<close>

lemma starts_with_prefix: "starts_with hs ns = prefix ns hs"
  by (induction hs ns rule: starts_with.induct) auto

lemma str_contains_sublist: "str_contains hs ns = sublist ns hs"
  by (induction hs) (simp_all add: starts_with_prefix sublist_Cons_right)

lemma replace_space_joined:
  "replace_space (a @ [SPACE] @ b) = replace_space a @ replace_space b"
  by (simp add: replace_space_def)

lemma lower_from_plain_prefix:
  "CAPITAL_SIGMA \<notin> set a \<Longrightarrow>
   lower_from U before (a @ b) = concat (map (ToLowerFull U) a) @ lower_from U (rev a @ before) b"
  by (induction a arbitrary: before) (simp_all add: lower_char_def)

lemma lower_plain_prefix:
  assumes "CAPITAL_SIGMA \<notin> set a"
  shows "prefix (lower U a) (lower U (a @ b))"
proof -
  have "lower U a = concat (map (ToLowerFull U) a)"
    using lower_from_plain_prefix [OF assms, of U "[]" "[]"] by (simp add: lower_def)
  moreover have "lower U (a @ b) = concat (map (ToLowerFull U) a) @ lower_from U (rev a) b"
    using lower_from_plain_prefix [OF assms, of U "[]" b] by (simp add: lower_def)
  ultimately show ?thesis by simp
qed

lemma lower_Nil: "lower U [] = []"
  by (simp add: lower_def)

lemma str_contains_Nil: "str_contains hs []"
  by (cases hs) simp_all

text \<open>
  When the category is a string or falsy, the join does not raise, and joining the truthy
  parts with a space and then dropping the spaces leaves the category (when it is a
  string) followed by the title, each without its spaces.
\<close>

lemma haystack_joins:
  assumes "category_joins p"
  shows "\<exists>h. py_join [SPACE] (truthy_parts p) = Inr h \<and>
             replace_space h = replace_space (category_text p @ title p)"
  using assms
  by (cases "category p")
     (auto simp: category_joins_def truthy_parts_def py_join_def category_text_def
        replace_space_def)

lemma matches_keyword_joins:
  assumes "category_joins p"
  shows "matches_keyword U p k =
     Inr (sublist (lower U (replace_space k))
            (lower U (replace_space (category_text p @ title p))))"
proof -
  from haystack_joins [OF assms] obtain h where
    "py_join [SPACE] (truthy_parts p) = Inr h"
    "replace_space h = replace_space (category_text p @ title p)"
    by blast
  then show ?thesis
    by (simp add: matches_keyword_def str_contains_sublist)
qed

lemma matches_keyword_raises:
  assumes "\<not> category_joins p"
  shows "matches_keyword U p k = Inl TypeError"
  using assms
  by (cases "category p")
     (auto simp: category_joins_def truthy_parts_def py_join_def matches_keyword_def)

lemma filter_products_joins:
  "list_all category_joins L \<Longrightarrow>
   filter_products U L k =
     Inr [p \<leftarrow> L. sublist (lower U (replace_space k))
                     (lower U (replace_space (category_text p @ title p)))]"
  by (induction L) (simp_all add: matches_keyword_joins)

lemma filter_products_raises:
  "\<not> list_all category_joins L \<Longrightarrow> filter_products U L k = Inl TypeError"
proof (induction L)
  case Nil
  then show ?case by simp
next
  case (Cons p L)
  show ?case
  proof (cases "category_joins p")
    case True
    with Cons show ?thesis
      by (simp add: matches_keyword_joins)
  next
    case False
    then show ?thesis
      by (simp add: matches_keyword_raises)
  qed
qed

lemma matches_empty_keyword: "category_joins p \<Longrightarrow> matches_keyword U p [] = Inr True"
  by (simp add: matches_keyword_joins replace_space_def lower_Nil)

lemma ai_phone_matches:
  "matches_keyword U \<lparr>title = t, price = pr, category = JString ai_phone_category\<rparr>
     ai_phone_keyword = Inr True"
proof -
  let ?p = "\<lparr>title = t, price = pr, category = JString ai_phone_category\<rparr>"
  have plain: "CAPITAL_SIGMA \<notin> set ai_phone_keyword"
    by (simp add: ai_phone_keyword_def str_def CAPITAL_SIGMA_def)
  have j: "category_joins ?p"
    by (simp add: category_joins_def)
  have "replace_space (category_text ?p @ title ?p) = ai_phone_keyword @ replace_space t"
    by (simp add: category_text_def ai_phone_category_def ai_phone_keyword_def str_def
        replace_space_def SPACE_def)
  moreover have "replace_space ai_phone_keyword = ai_phone_keyword"
    by (simp add: ai_phone_keyword_def str_def replace_space_def SPACE_def)
  ultimately show ?thesis
    using lower_plain_prefix [OF plain, of U "replace_space t"]
    by (simp add: matches_keyword_joins [OF j] prefix_imp_sublist)
qed

text \<open>The samples, filtered.\<close>

lemma samples_join:
  "category_joins phone_a" "category_joins cable_b" "category_joins phone_c"
  "category_joins phone_zero" "\<not> category_joins phone_five"
  by (simp_all add: category_joins_def phone_a_def cable_b_def phone_c_def phone_zero_def
      phone_five_def ai_phone_category_def str_def)

lemmas sample_text_defs =
  phone_a_def cable_b_def phone_c_def ai_phone_keyword_def ai_phone_category_def
  category_text_def str_def replace_space_def SPACE_def lower_def lower_char_def
  CAPITAL_SIGMA_def basic_latin_def

lemma samples_filtered:
  "filter_products basic_latin [cable_b, phone_a, phone_c] ai_phone_keyword = Inr [phone_a]"
proof -
  have "list_all category_joins [cable_b, phone_a, phone_c]"
    by (simp add: samples_join)
  from filter_products_joins [OF this, of basic_latin ai_phone_keyword] show ?thesis
    by (simp add: str_contains_sublist [symmetric] sample_text_defs)
qed

section \<open>The filter\<close>

text \<open>
  C2.  On a list of listings whose categories are strings or \<^verbatim>\<open>None\<close> (or any falsy
  value), \<open>filter_products\<close> returns, and a listing is in its result exactly when it is in
  the list and the keyword, with its spaces removed and in lower case, is a substring of
  the category followed by the title, with their spaces removed and in lower case.  (A
  category that is truthy and not a string makes the join raise \<^verbatim>\<open>TypeError\<close>.)  So the
  keyword AI + U+624B U+6A5F matches every listing whose category is that text with a
  space after AI, whatever its title and price.
\<close>

theorem filter_products_iff:
  "(list_all category_joins L \<longrightarrow> (\<exists>F. filter_products U L k = Inr F)) \<and>
   (filter_products U L k = Inr F \<longrightarrow>
      (p \<in> set F \<longleftrightarrow>
         p \<in> set L \<and>
         sublist (lower U (replace_space k))
           (lower U (replace_space (category_text p @ title p))))) \<and>
   (\<not> list_all category_joins L \<longrightarrow> filter_products U L k = Inl TypeError) \<and>
   matches_keyword U \<lparr>title = t, price = pr, category = JString ai_phone_category\<rparr>
     ai_phone_keyword = Inr True \<and>
   filter_products U [\<lparr>title = t, price = pr, category = JString ai_phone_category\<rparr>]
     ai_phone_keyword =
     Inr [\<lparr>title = t, price = pr, category = JString ai_phone_category\<rparr>]"
proof -
  have c1: "list_all category_joins L \<longrightarrow> (\<exists>F. filter_products U L k = Inr F)"
    by (simp add: filter_products_joins)
  have c2: "filter_products U L k = Inr F \<longrightarrow>
      (p \<in> set F \<longleftrightarrow>
         p \<in> set L \<and>
         sublist (lower U (replace_space k))
           (lower U (replace_space (category_text p @ title p))))"
  proof (cases "list_all category_joins L")
    case True
    then show ?thesis
      by (auto simp: filter_products_joins)
  next
    case False
    then show ?thesis
      by (simp add: filter_products_raises)
  qed
  have c3: "\<not> list_all category_joins L \<longrightarrow> filter_products U L k = Inl TypeError"
    by (simp add: filter_products_raises)
  have c4: "matches_keyword U \<lparr>title = t, price = pr, category = JString ai_phone_category\<rparr>
     ai_phone_keyword = Inr True"
    by (rule ai_phone_matches)
  have c5: "filter_products U [\<lparr>title = t, price = pr, category = JString ai_phone_category\<rparr>]
     ai_phone_keyword =
     Inr [\<lparr>title = t, price = pr, category = JString ai_phone_category\<rparr>]"
    by (simp add: ai_phone_matches)
  show ?thesis
    by (intro conjI; fact)
qed

theorem filter_products_iff_witness:
  "list_all category_joins [cable_b, phone_a, phone_c] \<and>
   filter_products basic_latin [cable_b, phone_a, phone_c] ai_phone_keyword = Inr [phone_a] \<and>
   sublist (lower basic_latin (replace_space ai_phone_keyword))
     (lower basic_latin (replace_space (category_text phone_a @ title phone_a))) \<and>
   \<not> sublist (lower basic_latin (replace_space ai_phone_keyword))
     (lower basic_latin (replace_space (category_text cable_b @ title cable_b))) \<and>
   \<not> list_all category_joins [phone_a, phone_five] \<and>
   filter_products basic_latin [phone_a, phone_five] ai_phone_keyword = Inl TypeError"
proof -
  have j: "list_all category_joins [cable_b, phone_a, phone_c]"
    by (simp add: samples_join)
  have nj: "\<not> list_all category_joins [phone_a, phone_five]"
    by (simp add: samples_join)
  note member = filter_products_iff
    [where U = basic_latin and L = "[cable_b, phone_a, phone_c]" and k = ai_phone_keyword
       and F = "[phone_a]",
     THEN conjunct2, THEN conjunct1, rule_format, OF samples_filtered]
  note raises = filter_products_iff
    [where U = basic_latin and L = "[phone_a, phone_five]" and k = ai_phone_keyword,
     THEN conjunct2, THEN conjunct2, THEN conjunct1, rule_format, OF nj]
  have ne: "cable_b \<noteq> phone_a"
    by (simp add: cable_b_def phone_a_def)
  have "sublist (lower basic_latin (replace_space ai_phone_keyword))
     (lower basic_latin (replace_space (category_text phone_a @ title phone_a)))"
    using member [of phone_a] by simp
  moreover have "\<not> sublist (lower basic_latin (replace_space ai_phone_keyword))
     (lower basic_latin (replace_space (category_text cable_b @ title cable_b)))"
    using member [of cable_b] ne by simp
  ultimately show ?thesis
    using j nj samples_filtered raises by simp
qed

text \<open>
  C3.  Filtering twice with the same keyword is filtering once: the second filter returns
  the result of the first, and where the first raises there is no second.
\<close>

theorem filter_products_idempotent:
  "(case filter_products U L k of Inl e \<Rightarrow> Inl e | Inr F \<Rightarrow> filter_products U F k) =
   filter_products U L k"
proof (cases "list_all category_joins L")
  case True
  let ?P = "\<lambda>p. sublist (lower U (replace_space k))
                   (lower U (replace_space (category_text p @ title p)))"
  from True have "list_all category_joins (filter ?P L)"
    by (simp add: list_all_iff)
  then have "filter_products U (filter ?P L) k = Inr (filter ?P (filter ?P L))"
    by (rule filter_products_joins)
  with True show ?thesis
    by (simp add: filter_products_joins)
next
  case False
  then show ?thesis
    by (simp add: filter_products_raises)
qed

text \<open>
  C9.  On a list of listings whose categories are strings or \<^verbatim>\<open>None\<close> (or any falsy
  value), \<open>filter_products\<close> returns; and what it returns is a subsequence of the input in
  the same order: its elements are elements of the input, none occurs more often than
  there, and none has changed place.
\<close>

theorem filter_products_subseq:
  "(list_all category_joins L \<longrightarrow> (\<exists>F. filter_products U L k = Inr F)) \<and>
   (filter_products U L k = Inr F \<longrightarrow>
      subseq F L \<and> set F \<subseteq> set L \<and> (\<forall>p. count_list F p \<le> count_list L p))"
proof -
  have count: "count_list (filter P xs) x \<le> count_list xs x"
    for P and xs :: "Product list" and x
    by (induction xs) simp_all
  have "filter_products U L k = Inr F \<longrightarrow>
      subseq F L \<and> set F \<subseteq> set L \<and> (\<forall>p. count_list F p \<le> count_list L p)"
  proof (cases "list_all category_joins L")
    case True
    then show ?thesis
      by (auto simp: filter_products_joins count)
  next
    case False
    then show ?thesis
      by (simp add: filter_products_raises)
  qed
  then show ?thesis
    by (simp add: filter_products_joins)
qed

theorem filter_products_subseq_witness:
  "list_all category_joins [cable_b, phone_a, phone_c] \<and>
   filter_products basic_latin [cable_b, phone_a, phone_c] ai_phone_keyword = Inr [phone_a] \<and>
   subseq [phone_a] [cable_b, phone_a, phone_c] \<and>
   (\<forall>p. count_list [phone_a] p \<le> count_list [cable_b, phone_a, phone_c] p)"
proof -
  have j: "list_all category_joins [cable_b, phone_a, phone_c]"
    by (simp add: samples_join)
  note sub = filter_products_subseq
    [where U = basic_latin and L = "[cable_b, phone_a, phone_c]" and k = ai_phone_keyword
       and F = "[phone_a]",
     THEN conjunct2, rule_format, OF samples_filtered]
  from sub have "subseq [phone_a] [cable_b, phone_a, phone_c]" ..
  moreover from sub have
    "\<forall>p. count_list [phone_a] p \<le> count_list [cable_b, phone_a, phone_c] p"
    by blast
  ultimately show ?thesis
    using j samples_filtered by blast
qed

text \<open>
  C10.  The empty keyword matches every listing: on a list of listings whose categories
  are strings or \<^verbatim>\<open>None\<close> (or any falsy value), filtering with it returns the list.
\<close>

theorem filter_products_empty_keyword:
  "list_all category_joins L \<Longrightarrow> filter_products U L [] = Inr L"
  by (induction L) (simp_all add: matches_empty_keyword)

theorem filter_products_empty_keyword_witness:
  "list_all category_joins [cable_b, phone_zero, phone_a] \<and>
   filter_products basic_latin [cable_b, phone_zero, phone_a] [] =
     Inr [cable_b, phone_zero, phone_a]"
proof -
  have j: "list_all category_joins [cable_b, phone_zero, phone_a]"
    by (simp add: samples_join)
  from filter_products_empty_keyword [OF j, of basic_latin] j show ?thesis
    by simp
qed

section \<open>Properties of extraction\<close>



lemma cards_loop_titles:
  "cards_loop B loads cs acc = Inr ps \<Longrightarrow> \<forall>p\<in>set acc. title p \<noteq> [] \<Longrightarrow>
   \<forall>p\<in>set ps. title p \<noteq> []"
proof (induction cs arbitrary: acc)
  case Nil
  then show ?case by simp
next
  case (Cons li cs)
  from Cons.prems(1) obtain cat where
    run: "cards_loop B loads cs
            (case title_of B li of None \<Rightarrow> acc
             | Some t \<Rightarrow> if t \<noteq> [] then acc @ [\<lparr>title = t, price = price_of B li, category = cat\<rparr>]
                         else acc) = Inr ps"
    by (auto simp: Let_def split: sum.splits)
  have "\<forall>p\<in>set (case title_of B li of None \<Rightarrow> acc
             | Some t \<Rightarrow> if t \<noteq> [] then acc @ [\<lparr>title = t, price = price_of B li, category = cat\<rparr>]
                         else acc). title p \<noteq> []"
    using Cons.prems(2) by (auto split: option.splits)
  with Cons.IH [OF run] show ?case by blast
qed

text \<open>The card extractor admits a candidate only with a title that is not empty.\<close>

lemma extract_from_cards_titles:
  "extract_from_cards B loads soup = Inr ps \<Longrightarrow> p \<in> set ps \<Longrightarrow> title p \<noteq> []"
  using cards_loop_titles [of B loads "select_cards B soup" "[]" ps]
  by (simp add: extract_from_cards_def)



text \<open>The samples, run.\<close>

lemma price_eval:
  "price_of (sample_bs4 pg)
     (SampleTag (Some (str ''Phone A'')) None None (str ''Phone A NT$9,999'') ats) =
   Some (str ''9,999'')"
  by (simp add: price_of_def sample_bs4_def str_def price_pattern_def lit_def group_def
      is_char_def is_space_def is_digit_or_comma_def)

lemmas card_defs =
  extract_from_cards_def parse_json_metadata_def raw_metadata_def str_or_def
  sample_loads_def category_of_def title_of_def text_or_none_def sample_bs4_def leaf_def
  str_def

lemma cards_bad_meta:
  "extract_from_cards (sample_bs4 bad_meta_page) sample_loads bad_meta_page =
     Inr [\<lparr>title = str ''Phone A'', price = Some (str ''9,999''), category = JNull\<rparr>]"
  using price_eval [of bad_meta_page]
  by (simp add: card_defs bad_meta_page_def)

lemma cards_list_meta:
  "extract_from_cards (sample_bs4 list_meta_page) sample_loads list_meta_page = Inl AttributeError"
  by (simp add: card_defs list_meta_page_def)

lemma cards_zero_category:
  "extract_from_cards (sample_bs4 zero_category_page) sample_loads zero_category_page =
     Inr [phone_zero]"
  using price_eval [of zero_category_page]
  by (simp add: card_defs zero_category_page_def phone_zero_def)

text \<open>
  C5.  \<open>extract_products\<close> returns what the card extractor found when that is not empty, and
  what the script extractor finds when the card extractor found nothing; an error of the
  card extractor passes through.  So an empty result means that both found nothing.
\<close>

theorem extract_products_fallback:
  "(\<forall>ps. extract_from_cards B loads (soup_of B html) = Inr ps \<and> ps \<noteq> [] \<longrightarrow>
      extract_products B loads html = Inr ps) \<and>
   (extract_from_cards B loads (soup_of B html) = Inr [] \<longrightarrow>
      extract_products B loads html = Inr (extract_from_scripts B (soup_of B html))) \<and>
   (\<forall>e. extract_from_cards B loads (soup_of B html) = Inl e \<longrightarrow>
      extract_products B loads html = Inl e) \<and>
   (extract_products B loads html = Inr [] \<longrightarrow>
      extract_from_cards B loads (soup_of B html) = Inr [] \<and>
      extract_from_scripts B (soup_of B html) = [])"
  by (auto simp: extract_products_def Let_def split: sum.splits if_splits)

theorem extract_products_fallback_witness:
  "extract_products (sample_bs4 bad_meta_page) sample_loads (str ''<html>'') =
     Inr [\<lparr>title = str ''Phone A'', price = Some (str ''9,999''), category = JNull\<rparr>] \<and>
   extract_from_cards (sample_bs4 script_page) sample_loads script_page = Inr [] \<and>
   extract_products (sample_bs4 script_page) sample_loads (str ''<html>'') =
     Inr (extract_from_scripts (sample_bs4 script_page) script_page) \<and>
   extract_products (sample_bs4 list_meta_page) sample_loads (str ''<html>'') = Inl AttributeError \<and>
   extract_products (sample_bs4 empty_page) sample_loads (str ''<html>'') = Inr [] \<and>
   extract_from_scripts (sample_bs4 empty_page) empty_page = []"
proof -
  have s1: "soup_of (sample_bs4 pg) h = pg" for pg h
    by (simp add: sample_bs4_def)
  have c2: "extract_from_cards (sample_bs4 script_page) sample_loads script_page = Inr []"
    by (simp add: extract_from_cards_def sample_bs4_def script_page_def)
  have e4: "extract_products (sample_bs4 empty_page) sample_loads (str ''<html>'') = Inr []"
    by (simp add: extract_products_def extract_from_cards_def extract_from_scripts_def
        sample_bs4_def empty_page_def)
  note nonempty = extract_products_fallback
    [of "sample_bs4 bad_meta_page" sample_loads "str ''<html>''", THEN conjunct1, rule_format]
  note fallback = extract_products_fallback
    [of "sample_bs4 script_page" sample_loads "str ''<html>''",
     THEN conjunct2, THEN conjunct1, rule_format]
  note failing = extract_products_fallback
    [of "sample_bs4 list_meta_page" sample_loads "str ''<html>''",
     THEN conjunct2, THEN conjunct2, THEN conjunct1, rule_format]
  note declared_empty = extract_products_fallback
    [of "sample_bs4 empty_page" sample_loads "str ''<html>''",
     THEN conjunct2, THEN conjunct2, THEN conjunct2, rule_format]
  have "extract_products (sample_bs4 bad_meta_page) sample_loads (str ''<html>'') =
     Inr [\<lparr>title = str ''Phone A'', price = Some (str ''9,999''), category = JNull\<rparr>]"
    by (rule nonempty) (simp add: s1 cards_bad_meta)
  moreover have "extract_products (sample_bs4 script_page) sample_loads (str ''<html>'') =
     Inr (extract_from_scripts (sample_bs4 script_page) script_page)"
    using fallback by (simp add: s1 c2)
  moreover have
    "extract_products (sample_bs4 list_meta_page) sample_loads (str ''<html>'') = Inl AttributeError"
    by (rule failing) (simp add: s1 cards_list_meta)
  moreover have "extract_from_scripts (sample_bs4 empty_page) empty_page = []"
    using declared_empty [OF e4] by (simp add: s1)
  ultimately show ?thesis
    using c2 e4 by simp
qed




text \<open>
  C7.  The claim that every listing produced by extraction has a non-empty title, run on
  a page without cards whose one inline script holds
  \<^verbatim>\<open>{goodsName:"Phone A",price:"9,999"}\<close>: the lazy group of the script pattern matches the
  empty string, and the script extractor admits the match as a listing with an empty
  title.
\<close>

theorem script_extractor_empty_title:
  "extract_from_scripts (sample_bs4 script_page) script_page =
     [\<lparr>title = [], price = Some (str ''9,999''), category = JNull\<rparr>] \<and>
   extract_products (sample_bs4 script_page) sample_loads (str ''<html>'') =
     Inr [\<lparr>title = [], price = Some (str ''9,999''), category = JNull\<rparr>]"
  by (simp add: extract_products_def extract_from_cards_def extract_from_scripts_def
     sample_bs4_def script_page_def leaf_def script_text_def script_products_def
     script_pattern_def lit_def str_def group_def is_char_def is_space_def is_dot_def
     not_rbrace_def is_digit_or_comma_def)

section \<open>The run of the program\<close>

lemma slice_to_nonneg: "0 \<le> n \<Longrightarrow> slice_to xs n = take (nat n) xs"
  by (simp add: slice_to_def)

lemma main_output_empty:
  "main_output W a [] =
     (case csv_path a of
        None \<Rightarrow> Inr [Print (str ''No matching products found.'')]
      | Some path \<Rightarrow>
          if can_open W path
          then Inr [WriteCsv path [csv_header], Print (str ''No matching products found.'')]
          else Inl OSError)"
  by (simp add: main_output_def split: option.splits)

lemma main_output_renders:
  assumes "main_output W a f = Inr evs"
  shows "(\<forall>path rows. WriteCsv path rows \<in> set evs \<longrightarrow> rows = csv_header # map csv_row f) \<and>
         (f \<noteq> [] \<longrightarrow>
            Print (if as_json a
                   then json_dumps W (JArray (map (\<lambda>product. JObject (product_dict product)) f))
                   else format_products (py_str W) f) \<in> set evs)"
  using assms
  by (cases "csv_path a") (auto simp: main_output_def split: if_splits)

text \<open>The samples, run.\<close>

lemma empty_page_filtered:
  "limit a = None \<Longrightarrow> main_filtered (sample_world empty_page) a = Inr []"
  by (simp add: main_filtered_def fetch_html_def sample_world_def extract_products_def
      extract_from_cards_def extract_from_scripts_def sample_bs4_def empty_page_def
      apply_limit_def)

lemma two_cards_extracted:
  "extract_products (sample_bs4 two_card_page) sample_loads h =
     Inr [\<lparr>title = str ''Phone A'', price = Some (str ''9,999''), category = JNull\<rparr>,
          \<lparr>title = str ''Phone B'', price = Some (str ''$5''),
             category = JString (str ''Phones'')\<rparr>]"
proof -
  have "price_of (sample_bs4 two_card_page)
          (SampleTag None (Some (str ''Phone B'')) (Some (str ''$5'')) (str ''Phone B'')
             [(str ''data-gtm'', str ''{\"cateLevel2Name\": \"Phones\"}'')]) = Some (str ''$5'')"
    by (simp add: price_of_def text_or_none_def sample_bs4_def leaf_def str_def)
  then show ?thesis
    using price_eval [of two_card_page "[(str ''data-ec'', str ''{bad'')]"]
    by (simp add: extract_products_def card_defs two_card_page_def)
qed

lemma zero_category_extracted:
  "extract_products (sample_bs4 zero_category_page) sample_loads h = Inr [phone_zero]"
  using cards_zero_category
  by (simp add: extract_products_def sample_bs4_def phone_zero_def)

lemma saved_one: "str ''Saved '' @ str_of_nat (Suc 0) @ str '' products to '' @ str ''out.csv'' =
    str ''Saved 1 products to out.csv''"
  by (simp add: str_of_nat.simps str_def)

lemma saved_two: "str ''Saved '' @ str_of_nat (Suc (Suc 0)) @ str '' products to '' @ str ''out.csv'' =
    str ''Saved 2 products to out.csv''"
  by (simp add: str_of_nat.simps str_def)

text \<open>
  C1, as the program has it.  When the filtered list is empty the program prints the one
  message \<^verbatim>\<open>No matching products found.\<close> and nothing else; but the CSV file comes before
  that test, so with a \<^verbatim>\<open>--csv\<close> path the file is written first, with the header row
  alone (and when it cannot be opened the error leaves the program before anything is
  printed).
\<close>

theorem empty_result_message:
  assumes "main_filtered W a = Inr []"
  shows "main W a =
     (case csv_path a of
        None \<Rightarrow> Inr [Print (str ''No matching products found.'')]
      | Some path \<Rightarrow>
          if can_open W path
          then Inr [WriteCsv path [csv_header], Print (str ''No matching products found.'')]
          else Inl OSError)"
  using assms by (simp add: main_def main_output_empty)

theorem empty_result_message_witness:
  "main_filtered (sample_world empty_page) plain_args = Inr [] \<and>
   main (sample_world empty_page) plain_args = Inr [Print (str ''No matching products found.'')] \<and>
   main_filtered (sample_world empty_page) csv_args = Inr [] \<and>
   main (sample_world empty_page) csv_args =
     Inr [WriteCsv (str ''out.csv'') [csv_header], Print (str ''No matching products found.'')]"
proof -
  have p: "main_filtered (sample_world empty_page) plain_args = Inr []"
    by (rule empty_page_filtered) (simp add: plain_args_def)
  have c: "main_filtered (sample_world empty_page) csv_args = Inr []"
    by (rule empty_page_filtered) (simp add: csv_args_def)
  have "main (sample_world empty_page) plain_args = Inr [Print (str ''No matching products found.'')]"
    using empty_result_message [OF p] by (simp add: plain_args_def)
  moreover have "main (sample_world empty_page) csv_args =
     Inr [WriteCsv (str ''out.csv'') [csv_header], Print (str ''No matching products found.'')]"
    using empty_result_message [OF c] by (simp add: csv_args_def sample_world_def)
  ultimately show ?thesis
    using p c by simp
qed

text \<open>
  The claim C1 as stated, that no CSV file is written for an empty result, fails on an
  empty page with \<^verbatim>\<open>--csv out.csv\<close>: the run is not the message alone, the file is written.
\<close>

theorem empty_result_csv_counterexample:
  "main_filtered (sample_world empty_page) csv_args = Inr [] \<and>
   main (sample_world empty_page) csv_args \<noteq> Inr [Print (str ''No matching products found.'')] \<and>
   main (sample_world empty_page) csv_args =
     Inr [WriteCsv (str ''out.csv'') [csv_header],
          Print (str ''No matching products found.'')]"
proof -
  have c: "main_filtered (sample_world empty_page) csv_args = Inr []"
    by (rule empty_page_filtered) (simp add: csv_args_def)
  then have "main (sample_world empty_page) csv_args =
     Inr [WriteCsv (str ''out.csv'') [csv_header],
          Print (str ''No matching products found.'')]"
    by (simp add: main_def main_output_def csv_args_def sample_world_def)
  with c show ?thesis by simp
qed

text \<open>
  C4, for a limit that is not negative.  The slice keeps the first \<open>n\<close> listings:
  \<open>min n (len filtered)\<close> of them, a prefix of the filtered list, in the same order.
  \<^verbatim>\<open>main\<close> hands that one list to the output, where the rows of the CSV file and the text
  or JSON printed are all made from it.
\<close>

theorem limit_nonnegative:
  assumes "0 \<le> n"
  shows "apply_limit (Some n) filtered = take (nat n) filtered \<and>
         int (length (apply_limit (Some n) filtered)) = min n (int (length filtered)) \<and>
         prefix (apply_limit (Some n) filtered) filtered \<and>
         (limit a = Some n \<and> fetch_html W (url a) = Inr html \<and>
          extract_products (bs W) (json_loads W) html = Inr products \<and>
          filter_products (unicode W) products (keyword a) = Inr matching \<longrightarrow>
            main W a = main_output W a (take (nat n) matching)) \<and>
         (main_output W a (take (nat n) filtered) = Inr evs \<longrightarrow>
            (\<forall>path rows. WriteCsv path rows \<in> set evs \<longrightarrow>
               rows = csv_header # map csv_row (take (nat n) filtered)) \<and>
            (take (nat n) filtered \<noteq> [] \<longrightarrow>
               Print (if as_json a
                      then json_dumps W (JArray (map (\<lambda>product. JObject (product_dict product))
                             (take (nat n) filtered)))
                      else format_products (py_str W) (take (nat n) filtered)) \<in> set evs))"
proof -
  have eq: "apply_limit (Some n) xs = take (nat n) xs" for xs
    using assms by (simp add: apply_limit_def slice_to_nonneg)
  have c1: "apply_limit (Some n) filtered = take (nat n) filtered"
    by (rule eq)
  have c2: "int (length (apply_limit (Some n) filtered)) = min n (int (length filtered))"
    using assms by (auto simp: eq min_def)
  have c3: "prefix (apply_limit (Some n) filtered) filtered"
    by (simp add: eq take_is_prefix)
  have c4: "limit a = Some n \<and> fetch_html W (url a) = Inr html \<and>
          extract_products (bs W) (json_loads W) html = Inr products \<and>
          filter_products (unicode W) products (keyword a) = Inr matching \<longrightarrow>
            main W a = main_output W a (take (nat n) matching)"
    by (simp add: main_def main_filtered_def eq)
  have c5: "main_output W a (take (nat n) filtered) = Inr evs \<longrightarrow>
            (\<forall>path rows. WriteCsv path rows \<in> set evs \<longrightarrow>
               rows = csv_header # map csv_row (take (nat n) filtered)) \<and>
            (take (nat n) filtered \<noteq> [] \<longrightarrow>
               Print (if as_json a
                      then json_dumps W (JArray (map (\<lambda>product. JObject (product_dict product))
                             (take (nat n) filtered)))
                      else format_products (py_str W) (take (nat n) filtered)) \<in> set evs)"
    using main_output_renders [of W a "take (nat n) filtered" evs] by blast
  show ?thesis
    by (intro conjI; fact)
qed

theorem limit_nonnegative_witness:
  "(0::int) \<le> 1 \<and>
   apply_limit (Some 1) [phone_a, cable_b] = [phone_a] \<and>
   int (length (apply_limit (Some 1) [phone_a, cable_b])) = min 1 (int (length [phone_a, cable_b])) \<and>
   main (sample_world two_card_page) json_csv_args =
     Inr [WriteCsv (str ''out.csv'')
            [csv_header, [JString (str ''Phone A''), JString (str ''9,999''), JString []]],
          Print (str ''<json>''),
          Print (str ''Saved 1 products to out.csv'')]"
proof -
  let ?W = "sample_world two_card_page"
  let ?A = "\<lparr>title = str ''Phone A'', price = Some (str ''9,999''), category = JNull\<rparr>"
  let ?B = "\<lparr>title = str ''Phone B'', price = Some (str ''$5''),
              category = JString (str ''Phones'')\<rparr>"
  have pos: "(0::int) \<le> 1" by simp
  note cut = limit_nonnegative [OF pos, of "[phone_a, cable_b]", THEN conjunct1]
  note len = limit_nonnegative [OF pos, of "[phone_a, cable_b]", THEN conjunct2, THEN conjunct1]
  note run = limit_nonnegative
    [OF pos, where a = json_csv_args and W = ?W and html = "str ''<html>''"
       and products = "[?A, ?B]" and matching = "[?A, ?B]",
     THEN conjunct2, THEN conjunct2, THEN conjunct2, THEN conjunct1, rule_format]
  have joins: "category_joins ?A" "category_joins ?B"
    by (simp_all add: category_joins_def)
  have hyp: "limit json_csv_args = Some 1 \<and>
      fetch_html ?W (url json_csv_args) = Inr (str ''<html>'') \<and>
      extract_products (bs ?W) (json_loads ?W) (str ''<html>'') = Inr [?A, ?B] \<and>
      filter_products (unicode ?W) [?A, ?B] (keyword json_csv_args) = Inr [?A, ?B]"
    using two_cards_extracted [of "str ''<html>''"]
    by (simp add: json_csv_args_def fetch_html_def sample_world_def matches_empty_keyword joins)
  have "main ?W json_csv_args = main_output ?W json_csv_args (take (nat 1) [?A, ?B])"
    by (rule run [OF hyp])
  also have "\<dots> = Inr [WriteCsv (str ''out.csv'')
            [csv_header, [JString (str ''Phone A''), JString (str ''9,999''), JString []]],
          Print (str ''<json>''),
          Print (str ''Saved 1 products to out.csv'')]"
    using saved_one
    by (simp add: main_output_def json_csv_args_def sample_world_def csv_row_def or_default_def
        py_or_def)
  finally show ?thesis
    using cut len by simp
qed

text \<open>
  The claim C4 as stated, for every integer, fails at \<^verbatim>\<open>--limit -1\<close>: the slice drops the
  last listing, and a list cannot have \<open>min (-1) 2\<close> elements.
\<close>

theorem limit_negative_counterexample:
  "apply_limit (Some (- 1)) [phone_a, cable_b] = [phone_a] \<and>
   int (length (apply_limit (Some (- 1)) [phone_a, cable_b])) \<noteq>
     min (- 1) (int (length [phone_a, cable_b]))"
  by (simp add: apply_limit_def slice_to_def)

text \<open>
  C8, for listings whose category is \<^verbatim>\<open>None\<close> or a string.  The JSON payload and the CSV
  rows are made from the same listings: the object of a listing has the three keys of
  the CSV header in the same order, and each CSV cell carries the value of the JSON field
  under that key, the same string, or the empty string for \<^verbatim>\<open>null\<close>.  With \<^verbatim>\<open>--json\<close> and
  \<^verbatim>\<open>--csv\<close> on a result that is not empty, both are written from the one list.
\<close>

theorem json_csv_same_fields:
  "map fst (product_dict p) = field_names \<and>
   csv_header = map JString field_names \<and>
   (category p = JNull \<or> is_text (category p) \<longrightarrow>
      list_all2 same_value (map snd (product_dict p)) (csv_row p)) \<and>
   (filtered \<noteq> [] \<and> as_json a \<and> csv_path a = Some path \<and> can_open W path \<longrightarrow>
      main_output W a filtered =
        Inr [WriteCsv path (csv_header # map csv_row filtered),
             Print (json_dumps W (JArray (map (\<lambda>product. JObject (product_dict product)) filtered))),
             Print (str ''Saved '' @ str_of_nat (length filtered) @ str '' products to '' @ path)])"
proof -
  have price_same: "same_value (json_of_field x) (JString (or_default x []))" for x
    by (cases x) (simp_all add: same_value_def json_of_field_def or_default_def)
  have category_same: "same_value c (py_or c (JString []))" if "c = JNull \<or> is_text c" for c
    using that by (cases c) (auto simp: same_value_def py_or_def)
  have c1: "map fst (product_dict p) = field_names"
    by (simp add: product_dict_def field_names_def)
  have c2: "csv_header = map JString field_names"
    by (rule csv_header_def)
  have c3: "category p = JNull \<or> is_text (category p) \<longrightarrow>
      list_all2 same_value (map snd (product_dict p)) (csv_row p)"
    using price_same [of "price p"] category_same [of "category p"]
    by (simp add: product_dict_def csv_row_def same_value_def)
  have c4: "filtered \<noteq> [] \<and> as_json a \<and> csv_path a = Some path \<and> can_open W path \<longrightarrow>
      main_output W a filtered =
        Inr [WriteCsv path (csv_header # map csv_row filtered),
             Print (json_dumps W (JArray (map (\<lambda>product. JObject (product_dict product)) filtered))),
             Print (str ''Saved '' @ str_of_nat (length filtered) @ str '' products to '' @ path)]"
    by (simp add: main_output_def)
  show ?thesis
    by (intro conjI; fact)
qed

theorem json_csv_same_fields_witness:
  "category cable_b = JNull \<and>
   product_dict cable_b =
     [(str ''title'', JString (str ''Cable B'')), (str ''price'', JNull), (str ''category'', JNull)] \<and>
   csv_row cable_b = [JString (str ''Cable B''), JString [], JString []] \<and>
   list_all2 same_value (map snd (product_dict cable_b)) (csv_row cable_b) \<and>
   is_text (category phone_a) \<and>
   list_all2 same_value (map snd (product_dict phone_a)) (csv_row phone_a) \<and>
   main_output (sample_world empty_page) json_csv_args [phone_a, cable_b] =
     Inr [WriteCsv (str ''out.csv'') [csv_header, csv_row phone_a, csv_row cable_b],
          Print (str ''<json>''),
          Print (str ''Saved 2 products to out.csv'')]"
proof -
  let ?W = "sample_world empty_page"
  note same = json_csv_same_fields [THEN conjunct2, THEN conjunct2, THEN conjunct1, rule_format]
  note out = json_csv_same_fields
    [where filtered = "[phone_a, cable_b]" and a = json_csv_args and path = "str ''out.csv''"
       and W = ?W, THEN conjunct2, THEN conjunct2, THEN conjunct2, rule_format]
  have hyp: "[phone_a, cable_b] \<noteq> [] \<and> as_json json_csv_args \<and>
      csv_path json_csv_args = Some (str ''out.csv'') \<and> can_open ?W (str ''out.csv'')"
    by (simp add: json_csv_args_def sample_world_def)
  have nb: "category cable_b = JNull" and ta: "is_text (category phone_a)"
    by (simp_all add: cable_b_def phone_a_def)
  have d: "product_dict cable_b =
     [(str ''title'', JString (str ''Cable B'')), (str ''price'', JNull), (str ''category'', JNull)]"
    by (simp add: product_dict_def cable_b_def json_of_field_def)
  have r: "csv_row cable_b = [JString (str ''Cable B''), JString [], JString []]"
    by (simp add: csv_row_def cable_b_def or_default_def py_or_def)
  have "list_all2 same_value (map snd (product_dict cable_b)) (csv_row cable_b)"
    by (rule same) (simp add: nb)
  moreover have "list_all2 same_value (map snd (product_dict phone_a)) (csv_row phone_a)"
    by (rule same) (simp add: ta)
  moreover have "main_output ?W json_csv_args [phone_a, cable_b] =
     Inr [WriteCsv (str ''out.csv'') [csv_header, csv_row phone_a, csv_row cable_b],
          Print (str ''<json>''),
          Print (str ''Saved 2 products to out.csv'')]"
    using out [OF hyp] saved_two by (simp add: sample_world_def)
  ultimately show ?thesis
    using nb ta d r by simp
qed

text \<open>
  The claim C8 as stated, for every listing of the result, fails on a page whose card has
  the metadata \<^verbatim>\<open>{"cateLevel1Name": 0}\<close>: the category of the listing is the number 0,
  the listing passes the filter, and in the one run the JSON object carries 0 under
  \<^verbatim>\<open>category\<close> where the CSV row carries the empty string.
\<close>

theorem json_csv_zero_counterexample:
  "main_filtered (sample_world zero_category_page) json_csv_args = Inr [phone_zero] \<and>
   main (sample_world zero_category_page) json_csv_args =
     Inr [WriteCsv (str ''out.csv'') [csv_header, csv_row phone_zero],
          Print (json_dumps (sample_world zero_category_page)
                   (JArray [JObject (product_dict phone_zero)])),
          Print (str ''Saved 1 products to out.csv'')] \<and>
   product_dict phone_zero =
     [(str ''title'', JString (str ''Phone A'')), (str ''price'', JString (str ''9,999'')),
      (str ''category'', JInt 0)] \<and>
   csv_row phone_zero = [JString (str ''Phone A''), JString (str ''9,999''), JString []] \<and>
   \<not> list_all2 same_value (map snd (product_dict phone_zero)) (csv_row phone_zero)"
proof -
  let ?W = "sample_world zero_category_page"
  have j: "category_joins phone_zero"
    by (simp add: category_joins_def phone_zero_def)
  have f: "main_filtered ?W json_csv_args = Inr [phone_zero]"
    using zero_category_extracted [of "str ''<html>''"]
    by (simp add: main_filtered_def fetch_html_def sample_world_def json_csv_args_def
        matches_empty_keyword j apply_limit_def slice_to_def)
  have "main ?W json_csv_args = main_output ?W json_csv_args [phone_zero]"
    by (simp add: main_def f)
  also have "\<dots> =
     Inr [WriteCsv (str ''out.csv'') [csv_header, csv_row phone_zero],
          Print (json_dumps ?W (JArray [JObject (product_dict phone_zero)])),
          Print (str ''Saved 1 products to out.csv'')]"
    using saved_one
    by (simp add: main_output_def json_csv_args_def sample_world_def)
  finally have m: "main ?W json_csv_args =
     Inr [WriteCsv (str ''out.csv'') [csv_header, csv_row phone_zero],
          Print (json_dumps ?W (JArray [JObject (product_dict phone_zero)])),
          Print (str ''Saved 1 products to out.csv'')]" .
  have d: "product_dict phone_zero =
     [(str ''title'', JString (str ''Phone A'')), (str ''price'', JString (str ''9,999'')),
      (str ''category'', JInt 0)]"
    by (simp add: product_dict_def phone_zero_def json_of_field_def)
  have r: "csv_row phone_zero = [JString (str ''Phone A''), JString (str ''9,999''), JString []]"
    by (simp add: csv_row_def phone_zero_def or_default_def py_or_def str_def)
  have "\<not> list_all2 same_value (map snd (product_dict phone_zero)) (csv_row phone_zero)"
    by (simp add: d r same_value_def)
  with f m d r show ?thesis
    by simp
qed

end
